theory Spec2Isabelle
  imports Main "HOL-Library.AList" "HOL-Library.Multiset"
begin

section \<open>Values, dictionaries and exceptions\<close>

text \<open>
  The module \<^verbatim>\<open>es_utils.py\<close> handles JSON-like Python values: query documents, metadata
  records and search hits are dictionaries with string keys. A dictionary is an association
  list; \<open>map_of\<close> reads it, \<open>AList.update\<close> is \<^verbatim>\<open>d[k] = v\<close> and \<open>AList.delete\<close> is
  \<^verbatim>\<open>del d[k]\<close>. Numbers are unbounded integers; floats are outside the model.
\<close>

datatype pyval =
    PNone
  | PBool bool
  | PInt int
  | PStr string
  | PList "pyval list"
  | PDict "(string \<times> pyval) list"

type_synonym dict = "(string \<times> pyval) list"

text \<open>
  Exceptions are values. \<open>ElasticsearchException\<close> stands for the engine's exception family,
  \<open>SocketError\<close> for \<^verbatim>\<open>socket.error\<close>, \<open>EsUtilException\<close> is the module's own exception with
  its message, and \<open>OtherException\<close> is anything else a collaborator may raise.
\<close>

datatype exn =
    ElasticsearchException
  | SocketError
  | EsUtilException string
  | KeyError
  | IndexError
  | TypeError
  | AttributeError
  | ZeroDivisionError
  | OtherException

text \<open>Truthiness of a value, as \<^verbatim>\<open>if v:\<close> tests it.\<close>

fun py_bool :: "pyval \<Rightarrow> bool" where
  "py_bool PNone = False"
| "py_bool (PBool b) = b"
| "py_bool (PInt i) = (i \<noteq> 0)"
| "py_bool (PStr s) = (s \<noteq> [])"
| "py_bool (PList xs) = (xs \<noteq> [])"
| "py_bool (PDict d) = (d \<noteq> [])"

text \<open>\<^verbatim>\<open>len(v)\<close>: defined on strings, lists and dictionaries, a \<^verbatim>\<open>TypeError\<close> otherwise.\<close>

fun py_len :: "pyval \<Rightarrow> exn + nat" where
  "py_len (PStr s) = Inr (length s)"
| "py_len (PList xs) = Inr (length xs)"
| "py_len (PDict d) = Inr (length d)"
| "py_len v = Inl TypeError"

text \<open>\<^verbatim>\<open>v[k]\<close> for a string key \<open>k\<close>: only a dictionary can be subscripted by a string.\<close>

fun py_getitem_key :: "pyval \<Rightarrow> string \<Rightarrow> exn + pyval" where
  "py_getitem_key (PDict d) k = (case map_of d k of None \<Rightarrow> Inl KeyError | Some v \<Rightarrow> Inr v)"
| "py_getitem_key v k = Inl TypeError"

text \<open>
  \<^verbatim>\<open>v[0]\<close>: the first element of a list or the first character of a string
  (\<^verbatim>\<open>IndexError\<close> when empty); a dictionary has string keys only, so \<^verbatim>\<open>KeyError\<close>.
\<close>

fun py_getitem_0 :: "pyval \<Rightarrow> exn + pyval" where
  "py_getitem_0 (PList []) = Inl IndexError"
| "py_getitem_0 (PList (x # xs)) = Inr x"
| "py_getitem_0 (PStr []) = Inl IndexError"
| "py_getitem_0 (PStr (c # cs)) = Inr (PStr [c])"
| "py_getitem_0 (PDict d) = Inl KeyError"
| "py_getitem_0 v = Inl TypeError"

text \<open>\<^verbatim>\<open>d.update(other)\<close>: every entry of \<open>other\<close> is stored into \<open>d\<close>, in turn.\<close>

definition dict_update :: "dict \<Rightarrow> dict \<Rightarrow> dict" where
  "dict_update d other = fold (\<lambda>(k, v). AList.update k v) other d"

section \<open>Module constants\<close>

definition DEFAULT_TIMEOUT :: int where
  "DEFAULT_TIMEOUT = 30"

definition DEFAULT_RESULT_SIZE :: int where
  "DEFAULT_RESULT_SIZE = 10 ^ 4"

definition DEFAULT_SCROLL_SIZE :: int where
  "DEFAULT_SCROLL_SIZE = 5 * 10 ^ 4"

section \<open>Composing a query document\<close>

text \<open>
  \<^verbatim>\<open>_compose_query\<close>. Equality, regex and batch constraints are (field, value) pairs, range
  constraints are (field, low, high) triples; a bound that is absent is \<open>PNone\<close>.
  \<open>fields_returned\<close>, \<open>size\<close> and \<open>sort_specs\<close> are arbitrary values, tested for truthiness
  as the source does.
\<close>

fun range_list :: "(string \<times> pyval \<times> pyval) list \<Rightarrow> pyval list" where
  "range_list [] = []"
| "range_list ((key, low, high) # rest) =
     (if low = PNone \<and> high = PNone then range_list rest
      else
        (let temp_dict = (if low \<noteq> PNone then [(''gte'', low)] else []);
             temp_dict = (if high \<noteq> PNone then AList.update ''lte'' high temp_dict
                          else temp_dict)
         in PDict [(''range'', PDict [(key, PDict temp_dict)])] # range_list rest))"

definition term_list :: "string \<Rightarrow> (string \<times> pyval) list \<Rightarrow> pyval list" where
  "term_list tag cs = map (\<lambda>(k, v). PDict [(tag, PDict [(k, v)])]) (filter (\<lambda>(k, v). k \<noteq> []) cs)"

definition compose_query ::
  "(string \<times> pyval) list \<Rightarrow> pyval \<Rightarrow> (string \<times> pyval \<times> pyval) list \<Rightarrow> pyval \<Rightarrow> pyval \<Rightarrow>
   (string \<times> pyval) list \<Rightarrow> (string \<times> pyval) list \<Rightarrow> exn + dict" where
  "compose_query equality_constraints fields_returned range_constraints sz sort_specs
       regex_constraints batch_constraints =
     (if equality_constraints = [] \<and> range_constraints = []
      then Inl (EsUtilException ''No range or equality constraints specified.'')
      else
        (let eq_list = term_list ''term'' equality_constraints;
             batch_list = term_list ''terms'' batch_constraints;
             regex_list = term_list ''regexp'' regex_constraints;
             constraints = eq_list @ batch_list @ range_list range_constraints @ regex_list;
             query = [(''query'', PDict [(''bool'', PDict [(''must'', PList constraints)])])];
             query = (if py_bool fields_returned
                      then AList.update ''fields'' fields_returned query else query);
             query = AList.update ''size'' sz query;
             query = (if py_bool sort_specs
                      then AList.update ''sort'' sort_specs query else query)
         in Inr query))"

text \<open>The clauses of the must-group of a document: \<^verbatim>\<open>q['query']['bool']['must']\<close>.\<close>

definition must_clauses :: "dict \<Rightarrow> pyval list option" where
  "must_clauses q =
     (case map_of q ''query'' of
        Some (PDict b) \<Rightarrow>
          (case map_of b ''bool'' of
             Some (PDict m) \<Rightarrow>
               (case map_of m ''must'' of Some (PList cs) \<Rightarrow> Some cs | _ \<Rightarrow> None)
           | _ \<Rightarrow> None)
      | _ \<Rightarrow> None)"

definition must_count :: "exn + dict \<Rightarrow> nat option" where
  "must_count r = (case r of Inl e \<Rightarrow> None | Inr q \<Rightarrow> map_option length (must_clauses q))"

text \<open>
  The count the specification gives for the must-group: every equality, batch and regex
  constraint, and every range constraint that has a bound.
\<close>

definition spec_nontrivial_constraints ::
  "(string \<times> pyval) list \<Rightarrow> (string \<times> pyval) list \<Rightarrow> (string \<times> pyval \<times> pyval) list \<Rightarrow>
   (string \<times> pyval) list \<Rightarrow> nat" where
  "spec_nontrivial_constraints eqs batches ranges regexes =
     length eqs + length batches
     + length (filter (\<lambda>(k, low, high). \<not> (low = PNone \<and> high = PNone)) ranges)
     + length regexes"

text \<open>The count the code produces: constraints with an empty field name are dropped too,
  except in the range category.\<close>

definition named :: "(string \<times> pyval) list \<Rightarrow> (string \<times> pyval) list" where
  "named cs = filter (\<lambda>(k, v). k \<noteq> []) cs"

definition bounded :: "(string \<times> pyval \<times> pyval) list \<Rightarrow> (string \<times> pyval \<times> pyval) list" where
  "bounded rs = filter (\<lambda>(k, low, high). \<not> (low = PNone \<and> high = PNone)) rs"

section \<open>The connection object and its collaborators\<close>

text \<open>The fields \<^verbatim>\<open>__init__\<close> stores in an \<^verbatim>\<open>ESMetadata\<close> object.\<close>

record config =
  use_http :: bool
  host :: string
  port :: int
  index :: string
  udp_port :: int
  timeout :: int

text \<open>
  What the engine answers to a search: \<^verbatim>\<open>result['hits']['total']\<close> and
  \<^verbatim>\<open>result['hits']['hits']\<close>.
\<close>

record response =
  hits_total :: int
  hits_hits :: "dict list"

text \<open>
  The collaborators are parameters of the model: each field says what a call answers, or
  which exception it raises. A scan yields hits one by one and may end with an exception.
  A datagram is kept as its two documents (header line and metadata line) before JSON
  encoding. \<open>time_time n\<close> is the clock's reading at the \<open>n\<close>-th call of \<^verbatim>\<open>time.time()\<close>.
\<close>

record es_env =
  es_indices_exists :: "string \<Rightarrow> exn + bool"
  es_search :: "string \<Rightarrow> dict \<Rightarrow> exn + response"
  es_scan :: "dict \<Rightarrow> string \<Rightarrow> int \<Rightarrow> dict list \<times> exn option"
  es_index :: "string \<Rightarrow> pyval \<Rightarrow> dict \<Rightarrow> exn option"
  es_bulk :: "dict list \<Rightarrow> exn option"
  sock_sendto :: "pyval \<Rightarrow> pyval \<Rightarrow> string \<Rightarrow> int \<Rightarrow> exn option"
  time_time :: "nat \<Rightarrow> pyval"

text \<open>
  The calls made to the collaborators and the messages logged at error and warning level,
  in order. Debug messages are not recorded.
\<close>

datatype log_msg =
    MsgExn exn
  | MsgIndexMissing string string int
  | MsgScroll int nat pyval

datatype event =
    EsIndicesExists string
  | EsSearch string dict
  | EsScan dict string int
  | EsIndex string pyval dict
  | EsBulk "dict list"
  | SockSendto pyval pyval string int
  | LogError log_msg
  | LogWarn log_msg

section \<open>Posting metadata\<close>

text \<open>\<^verbatim>\<open>_send_data_http\<close>: an engine exception is logged and muted, any other propagates.\<close>

definition send_data_http :: "config \<Rightarrow> es_env \<Rightarrow> pyval \<Rightarrow> dict \<Rightarrow> exn option \<times> event list" where
  "send_data_http self env type_str metadata =
     (case es_index env (index self) type_str metadata of
        None \<Rightarrow> (None, [EsIndex (index self) type_str metadata])
      | Some e \<Rightarrow>
          if e = ElasticsearchException
          then (None, [EsIndex (index self) type_str metadata, LogError (MsgExn e)])
          else (Some e, [EsIndex (index self) type_str metadata]))"

text \<open>\<^verbatim>\<open>_send_data_udp\<close>: a socket error is logged as a warning and muted.\<close>

definition send_data_udp :: "config \<Rightarrow> es_env \<Rightarrow> pyval \<Rightarrow> dict \<Rightarrow> exn option \<times> event list" where
  "send_data_udp self env type_str metadata =
     (let header = PDict [(''index'', PDict [(''_index'', PStr (index self)), (''_type'', type_str)])];
          sent = SockSendto header (PDict metadata) (host self) (udp_port self)
      in case sock_sendto env header (PDict metadata) (host self) (udp_port self) of
           None \<Rightarrow> (None, [sent])
         | Some e \<Rightarrow>
             if e = SocketError then (None, [sent, LogWarn (MsgExn e)])
             else (Some e, [sent]))"

text \<open>
  \<^verbatim>\<open>post\<close>. The result is the value returned (\<open>Inr\<close>) or the exception raised (\<open>Inl\<close>),
  with the trace of calls and log messages.
\<close>

definition post ::
  "config \<Rightarrow> es_env \<Rightarrow> pyval \<Rightarrow> dict \<Rightarrow> bool \<Rightarrow> dict \<Rightarrow> (exn + bool) \<times> event list" where
  "post self env type_str metadata log_time_recorded kwargs =
     (if metadata = [] then (Inr True, [])
      else
        (let metadata = dict_update metadata kwargs;
             type_str = (case map_of metadata ''_type'' of None \<Rightarrow> type_str | Some t \<Rightarrow> t);
             metadata = (case map_of metadata ''_type'' of
                           None \<Rightarrow> metadata | Some t \<Rightarrow> AList.delete ''_type'' metadata);
             metadata = (if log_time_recorded
                         then AList.update ''time_recorded'' (time_time env 0) metadata
                         else metadata);
             sent = (if use_http self then send_data_http self env type_str metadata
                     else send_data_udp self env type_str metadata)
         in case fst sent of
              None \<Rightarrow> (Inr True, snd sent)
            | Some e \<Rightarrow>
                if e = ElasticsearchException
                then (Inr False, snd sent @ [LogError (MsgExn e)])
                else (Inl e, snd sent)))"

text \<open>
  The loop of \<^verbatim>\<open>bulk_post\<close> that builds the actions; \<open>n\<close> counts the clock readings
  taken so far.
\<close>

fun bulk_actions :: "config \<Rightarrow> es_env \<Rightarrow> bool \<Rightarrow> dict \<Rightarrow> nat \<Rightarrow> dict list \<Rightarrow> dict list" where
  "bulk_actions self env log_time_recorded kwargs n [] = []"
| "bulk_actions self env log_time_recorded kwargs n (metadata # rest) =
     (let metadata = dict_update metadata kwargs;
          stamp = (log_time_recorded \<and> map_of metadata ''time_recorded'' = None);
          metadata = (if stamp then AList.update ''time_recorded'' (time_time env n) metadata
                      else metadata);
          metadata = AList.update ''_index'' (PStr (index self)) metadata
      in metadata # bulk_actions self env log_time_recorded kwargs (if stamp then Suc n else n) rest)"

definition bulk_post ::
  "config \<Rightarrow> es_env \<Rightarrow> dict list \<Rightarrow> bool \<Rightarrow> dict \<Rightarrow> (exn + bool) \<times> event list" where
  "bulk_post self env data_list log_time_recorded kwargs =
     (if data_list = [] then (Inr True, [])
      else
        (let actions = bulk_actions self env log_time_recorded kwargs 0 data_list
         in case es_bulk env actions of
              None \<Rightarrow> (Inr True, [EsBulk actions])
            | Some e \<Rightarrow>
                if e = ElasticsearchException
                then (Inr False, [EsBulk actions, LogError (MsgExn e)])
                else (Inl e, [EsBulk actions])))"

section \<open>Fetching results\<close>

text \<open>\<^verbatim>\<open>QueryResult = collections.namedtuple('QueryResult', ['total', 'hits'])\<close>\<close>

record QueryResult =
  total :: int
  hits :: "dict list"

subsection \<open>Scrolling\<close>

text \<open>
  The loop over the scroll: each hit is appended, and the percentage downloaded is
  computed by a division by \<open>total_match\<close>, which raises when that is zero.
\<close>

fun scroll_loop :: "int \<Rightarrow> dict list \<Rightarrow> dict list \<Rightarrow> exn + dict list" where
  "scroll_loop total_match hs [] = Inr hs"
| "scroll_loop total_match hs (hit # rest) =
     (if total_match = 0 then Inl ZeroDivisionError
      else scroll_loop total_match (hs @ [hit]) rest)"

text \<open>
  The sort rule read from the first sort specification:
  \<^verbatim>\<open>sort[0].keys()[0]\<close> and \<^verbatim>\<open>sort[0].values()[0] == 'desc'\<close>.
\<close>

definition sort_rule :: "pyval \<Rightarrow> exn + string \<times> bool" where
  "sort_rule sort_spec =
     (case py_getitem_0 sort_spec of
        Inl e \<Rightarrow> Inl e
      | Inr (PDict []) \<Rightarrow> Inl IndexError
      | Inr (PDict ((k, v) # rest)) \<Rightarrow> Inr (k, v = PStr ''desc'')
      | Inr other \<Rightarrow> Inl AttributeError)"

text \<open>
  The key function of the sort:
  \<^verbatim>\<open>hit['_source'][sort_key] if '_source' in hit else hit['fields'][sort_key][0]\<close>.
\<close>

definition sort_value :: "string \<Rightarrow> dict \<Rightarrow> exn + pyval" where
  "sort_value skey hit =
     (case map_of hit ''_source'' of
        Some s \<Rightarrow> py_getitem_key s skey
      | None \<Rightarrow>
          (case map_of hit ''fields'' of
             None \<Rightarrow> Inl KeyError
           | Some f \<Rightarrow>
               (case py_getitem_key f skey of
                  Inl e \<Rightarrow> Inl e
                | Inr v \<Rightarrow> py_getitem_0 v)))"

fun sort_values :: "string \<Rightarrow> dict list \<Rightarrow> exn + pyval list" where
  "sort_values skey [] = Inr []"
| "sort_values skey (hit # rest) =
     (case sort_value skey hit of
        Inl e \<Rightarrow> Inl e
      | Inr v \<Rightarrow>
          (case sort_values skey rest of
             Inl e \<Rightarrow> Inl e
           | Inr vs \<Rightarrow> Inr (v # vs)))"

text \<open>
  \<^verbatim>\<open>sorted(hits, key=key, reverse=is_desc)\<close> on the keys already computed. The sort is
  stable in both directions. \<open>rank\<close> places a value in the language's ordering of values;
  it is a parameter of the model.
\<close>

definition py_sorted :: "(pyval \<Rightarrow> 'k::linorder) \<Rightarrow> pyval list \<Rightarrow> dict list \<Rightarrow> bool \<Rightarrow> dict list" where
  "py_sorted rank keys hs reverse =
     (let decorated = zip keys hs
      in map snd (if reverse then rev (sort_key (\<lambda>p. rank (fst p)) (rev decorated))
                  else sort_key (\<lambda>p. rank (fst p)) decorated))"

definition sort_hits :: "(pyval \<Rightarrow> 'k::linorder) \<Rightarrow> pyval \<Rightarrow> dict list \<Rightarrow> exn + dict list" where
  "sort_hits rank sort_spec hs =
     (if py_bool sort_spec then
        (case sort_rule sort_spec of
           Inl e \<Rightarrow> Inl e
         | Inr (skey, is_desc) \<Rightarrow>
             (case sort_values skey hs of
                Inl e \<Rightarrow> Inl e
              | Inr keys \<Rightarrow> Inr (py_sorted rank keys hs is_desc)))
      else Inr hs)"

text \<open>
  The check of the sort in \<^verbatim>\<open>_get_results_by_scan\<close>: with a \<^verbatim>\<open>sort\<close> entry of length
  above one the function raises; otherwise the sort (or \<^verbatim>\<open>None\<close>) is kept aside and
  the entry is deleted from the query.
\<close>

definition strip_sort :: "dict \<Rightarrow> exn + pyval \<times> dict" where
  "strip_sort query =
     (case map_of query ''sort'' of
        None \<Rightarrow> Inr (PNone, query)
      | Some sort_spec \<Rightarrow>
          (case py_len sort_spec of
             Inl e \<Rightarrow> Inl e
           | Inr n \<Rightarrow>
               if n > 1
               then Inl (EsUtilException
                 ''_get_results_by_scan does not support sort with more than one key: %s'')
               else Inr (sort_spec, AList.delete ''sort'' query)))"

text \<open>
  \<^verbatim>\<open>_get_results_by_scan\<close>. The query is mutated in place: the second component is
  the query as the function leaves it, also when it raises.
\<close>

definition get_results_by_scan ::
  "(pyval \<Rightarrow> 'k::linorder) \<Rightarrow> config \<Rightarrow> es_env \<Rightarrow> dict \<Rightarrow> (exn + dict list) \<times> dict \<times> event list" where
  "get_results_by_scan rank self env query =
     (let query = AList.update ''size'' (PInt 1) query;
          searched = [EsSearch (index self) query]
      in case es_search env (index self) query of
           Inl e \<Rightarrow> (Inl e, query, searched)
         | Inr result \<Rightarrow>
             (let total_match = hits_total result
              in case strip_sort query of
                   Inl e \<Rightarrow> (Inl e, query, searched)
                 | Inr (sort_spec, query) \<Rightarrow>
                     (let query = AList.delete ''size'' query;
                          scroll = es_scan env query (index self) DEFAULT_SCROLL_SIZE;
                          scanned = searched @ [EsScan query (index self) DEFAULT_SCROLL_SIZE]
                      in case scroll_loop total_match [] (fst scroll) of
                           Inl e \<Rightarrow> (Inl e, query, scanned)
                         | Inr hs \<Rightarrow>
                             (case snd scroll of
                                Some e \<Rightarrow> (Inl e, query, scanned)
                              | None \<Rightarrow> (sort_hits rank sort_spec hs, query, scanned)))))"

subsection \<open>Normalising hits and executing a query\<close>

text \<open>The loop over \<^verbatim>\<open>hit['fields'].items()\<close>.\<close>

fun convert_fields :: "dict \<Rightarrow> dict \<Rightarrow> exn + dict" where
  "convert_fields converted [] = Inr converted"
| "convert_fields converted ((key, val) # items) =
     (case py_len val of
        Inl e \<Rightarrow> Inl e
      | Inr n \<Rightarrow>
          if n = 1 then
            (case py_getitem_0 val of
               Inl e \<Rightarrow> Inl e
             | Inr v \<Rightarrow> convert_fields (AList.update key v converted) items)
          else convert_fields (AList.update key val converted) items)"

definition convert_hit :: "dict \<Rightarrow> exn + dict" where
  "convert_hit hit =
     (case map_of hit ''fields'' of
        Some (PDict items) \<Rightarrow> convert_fields [] items
      | Some other \<Rightarrow> Inl AttributeError
      | None \<Rightarrow>
          (case map_of hit ''_source'' of
             None \<Rightarrow> Inl KeyError
           | Some (PDict d) \<Rightarrow> Inr d
           | Some other \<Rightarrow> Inl AttributeError))"

fun convert_hits :: "dict list \<Rightarrow> dict list \<Rightarrow> exn + dict list" where
  "convert_hits output [] = Inr output"
| "convert_hits output (hit # rest) =
     (case convert_hit hit of
        Inl e \<Rightarrow> Inl e
      | Inr converted \<Rightarrow> convert_hits (output @ [converted]) rest)"

definition make_output :: "int \<Rightarrow> dict list \<Rightarrow> exn + QueryResult option" where
  "make_output total_match hs =
     (case convert_hits [] hs of
        Inl e \<Rightarrow> Inl e
      | Inr output \<Rightarrow> Inr (Some \<lparr>total = total_match, hits = output\<rparr>))"

text \<open>
  \<^verbatim>\<open>execute_query\<close>. The result is \<open>Inr None\<close> for Python's \<^verbatim>\<open>None\<close>; the second
  component is the caller's query document after the call, the third the trace.
\<close>

definition execute_query ::
  "(pyval \<Rightarrow> 'k::linorder) \<Rightarrow> config \<Rightarrow> es_env \<Rightarrow> dict \<Rightarrow>
   (exn + QueryResult option) \<times> dict \<times> event list" where
  "execute_query rank self env query =
     (case es_indices_exists env (index self) of
        Inl e \<Rightarrow> (Inl e, query, [EsIndicesExists (index self)])
      | Inr found \<Rightarrow>
          if \<not> found
          then (Inr None, query,
                [EsIndicesExists (index self),
                 LogError (MsgIndexMissing (index self) (host self) (port self))])
          else
            (let called = [EsIndicesExists (index self), EsSearch (index self) query]
             in case es_search env (index self) query of
                  Inl e \<Rightarrow> (Inl e, query, called)
                | Inr result \<Rightarrow>
                    (let sz = (case map_of query ''size'' of None \<Rightarrow> PInt 1 | Some s \<Rightarrow> s);
                         need_scroll = (map_of query ''size'' \<noteq> None \<and> sz = PInt DEFAULT_RESULT_SIZE);
                         return_count = length (hits_hits result);
                         total_match = hits_total result
                     in if total_match > int return_count \<and> need_scroll then
                          (let warned = called @ [LogWarn (MsgScroll total_match return_count sz)];
                               scan = get_results_by_scan rank self env query
                           in case fst scan of
                                Inl e \<Rightarrow> (Inl e, fst (snd scan), warned @ snd (snd scan))
                              | Inr hs \<Rightarrow>
                                  (make_output total_match hs, fst (snd scan),
                                   warned @ snd (snd scan)))
                        else (make_output total_match (hits_hits result), query, called))))"

text \<open>\<^verbatim>\<open>query\<close>: compose, then execute.\<close>

definition query ::
  "(pyval \<Rightarrow> 'k::linorder) \<Rightarrow> config \<Rightarrow> es_env \<Rightarrow>
   (string \<times> pyval) list \<Rightarrow> pyval \<Rightarrow> (string \<times> pyval \<times> pyval) list \<Rightarrow> pyval \<Rightarrow> pyval \<Rightarrow>
   (string \<times> pyval) list \<Rightarrow> (string \<times> pyval) list \<Rightarrow>
   (exn + QueryResult option) \<times> event list" where
  "query rank self env equality_constraints fields_returned range_constraints sz sort_specs
       regex_constraints batch_constraints =
     (case compose_query equality_constraints fields_returned range_constraints sz sort_specs
             regex_constraints batch_constraints of
        Inl e \<Rightarrow> (Inl e, [])
      | Inr q \<Rightarrow>
          (let r = execute_query rank self env q in (fst r, snd (snd r))))"

section \<open>Observations on a trace\<close>

text \<open>The warning \<^verbatim>\<open>execute_query\<close> logs when, and only when, it turns to the scroll.\<close>

fun is_scroll_warning :: "event \<Rightarrow> bool" where
  "is_scroll_warning (LogWarn (MsgScroll t n s)) = True"
| "is_scroll_warning ev = False"

definition took_scroll_path :: "event list \<Rightarrow> bool" where
  "took_scroll_path tr = list_ex is_scroll_warning tr"

fun is_scan :: "event \<Rightarrow> bool" where
  "is_scan (EsScan q i n) = True"
| "is_scan ev = False"

definition scan_calls :: "event list \<Rightarrow> event list" where
  "scan_calls tr = filter is_scan tr"

section \<open>The sort value of a hit, as the specification words it\<close>



section \<open>Scenarios\<close>

text \<open>Concrete connections and engines on which the theorems below are exercised.\<close>

definition http_conn :: config where
  "http_conn = \<lparr>use_http = True, host = ''localhost'', port = 9200, index = ''metadata'',
                 udp_port = 9700, timeout = DEFAULT_TIMEOUT\<rparr>"

definition udp_conn :: config where
  "udp_conn = \<lparr>use_http = False, host = ''localhost'', port = 9200, index = ''metadata'',
                udp_port = 9700, timeout = DEFAULT_TIMEOUT\<rparr>"

text \<open>
  An engine that holds the documents \<open>docs\<close>: a search reports all of them and returns the
  first \<open>page\<close> ones, a scan yields them all; posting succeeds; the clock reads
  \<open>1000\<close>, \<open>1001\<close>, ...
\<close>

definition engine_with :: "dict list \<Rightarrow> nat \<Rightarrow> es_env" where
  "engine_with docs page =
     \<lparr>es_indices_exists = (\<lambda>i. Inr True),
      es_search = (\<lambda>i q. Inr \<lparr>hits_total = int (length docs), hits_hits = take page docs\<rparr>),
      es_scan = (\<lambda>q i n. (docs, None)),
      es_index = (\<lambda>i t b. None),
      es_bulk = (\<lambda>actions. None),
      sock_sendto = (\<lambda>h m a p. None),
      time_time = (\<lambda>n. PInt (1000 + int n))\<rparr>"

text \<open>
  An engine that answers the first search like \<open>engine_with\<close> but fails on the count
  search, the one issued with \<^verbatim>\<open>size\<close> set to 1.
\<close>

definition engine_recount_fails :: "dict list \<Rightarrow> nat \<Rightarrow> es_env" where
  "engine_recount_fails docs page =
     \<lparr>es_indices_exists = (\<lambda>i. Inr True),
      es_search = (\<lambda>i q. if map_of q ''size'' = Some (PInt 1) then Inl ElasticsearchException
                         else Inr \<lparr>hits_total = int (length docs), hits_hits = take page docs\<rparr>),
      es_scan = (\<lambda>q i n. (docs, None)),
      es_index = (\<lambda>i t b. None),
      es_bulk = (\<lambda>actions. None),
      sock_sendto = (\<lambda>h m a p. None),
      time_time = (\<lambda>n. PInt (1000 + int n))\<rparr>"

text \<open>An engine that cannot be reached: every call raises its transport's exception.\<close>

definition engine_down :: es_env where
  "engine_down =
     \<lparr>es_indices_exists = (\<lambda>i. Inl ElasticsearchException),
      es_search = (\<lambda>i q. Inl ElasticsearchException),
      es_scan = (\<lambda>q i n. ([], Some ElasticsearchException)),
      es_index = (\<lambda>i t b. Some ElasticsearchException),
      es_bulk = (\<lambda>actions. Some ElasticsearchException),
      sock_sendto = (\<lambda>h m a p. Some SocketError),
      time_time = (\<lambda>n. PInt (1000 + int n))\<rparr>"

text \<open>An engine on which the collection does not exist.\<close>

definition engine_without_index :: es_env where
  "engine_without_index =
     \<lparr>es_indices_exists = (\<lambda>i. Inr False),
      es_search = (\<lambda>i q. Inl ElasticsearchException),
      es_scan = (\<lambda>q i n. ([], Some ElasticsearchException)),
      es_index = (\<lambda>i t b. Some ElasticsearchException),
      es_bulk = (\<lambda>actions. Some ElasticsearchException),
      sock_sendto = (\<lambda>h m a p. None),
      time_time = (\<lambda>n. PInt (1000 + int n))\<rparr>"

text \<open>Three stored records and an ordering of values that ranks integers by their value.\<close>

definition three_docs :: "dict list" where
  "three_docs =
     [[(''_source'', PDict [(''time_recorded'', PInt 1)])],
      [(''_source'', PDict [(''time_recorded'', PInt 3)])],
      [(''fields'', PDict [(''time_recorded'', PList [PInt 2])])]]"

fun int_rank :: "pyval \<Rightarrow> int" where
  "int_rank (PInt i) = i"
| "int_rank v = 0"

section \<open>Properties of the composer\<close>

lemma length_range_list: "length (range_list rs) = length (bounded rs)"
  by (induction rs rule: range_list.induct) (simp_all add: bounded_def Let_def)

lemma length_term_list: "length (term_list tag cs) = length (named cs)"
  by (simp add: term_list_def named_def)

lemma must_clauses_compose:
  assumes "compose_query eqs fr rs sz ss rxs bs = Inr q"
  shows "must_clauses q =
    Some (term_list ''term'' eqs @ term_list ''terms'' bs @ range_list rs @ term_list ''regexp'' rxs)"
  using assms
  by (auto simp: compose_query_def must_clauses_def Let_def split: if_splits)

text \<open>
  C7. Whenever the equality and the range constraint lists are both empty,
  \<^verbatim>\<open>_compose_query\<close> raises \<^verbatim>\<open>EsUtilException\<close>, whatever the regex and batch constraints,
  the projection, the size and the sort are.
\<close>

theorem compose_query_no_constraints:
  "compose_query [] fr [] sz ss rxs bs =
     Inl (EsUtilException ''No range or equality constraints specified.'')"
  by (simp add: compose_query_def)

text \<open>
  C3, as stated, fails: an equality constraint whose field name is empty is supplied and is
  not a range constraint without bounds, yet the comprehension's guard \<^verbatim>\<open>if k\<close> drops it.
\<close>

theorem compose_query_empty_field_counterexample:
  "must_count (compose_query [('''', PInt 1)] PNone [] (PInt 10000) PNone [] []) = Some 0
   \<and> spec_nontrivial_constraints [('''', PInt 1)] [] [] [] = 1"
  by (simp add: must_count_def compose_query_def must_clauses_def term_list_def
      spec_nontrivial_constraints_def)

text \<open>
  C3, amended. For every call of \<^verbatim>\<open>_compose_query\<close> with at least one equality or at least
  one range constraint, the document is returned and its must-group has exactly as many
  clauses as there are equality, batch and regex constraints with a non-empty field name
  plus range constraints with at least one bound that is not \<^verbatim>\<open>None\<close>.
\<close>

theorem compose_query_must_count:
  assumes "eqs \<noteq> [] \<or> rs \<noteq> []"
  shows "must_count (compose_query eqs fr rs sz ss rxs bs) =
    Some (length (named eqs) + length (named bs) + length (bounded rs) + length (named rxs))"
proof -
  from assms obtain q where q: "compose_query eqs fr rs sz ss rxs bs = Inr q"
    by (auto simp: compose_query_def Let_def)
  have "must_clauses q =
    Some (term_list ''term'' eqs @ term_list ''terms'' bs @ range_list rs @ term_list ''regexp'' rxs)"
    using q by (rule must_clauses_compose)
  then show ?thesis
    by (simp add: q must_count_def length_term_list length_range_list)
qed

theorem compose_query_must_count_witness:
  "must_count (compose_query [(''host_id'', PInt 5)] PNone
      [(''time_recorded'', PInt 100, PInt 200), (''job_id'', PNone, PNone)]
      (PInt 20) PNone [('''', PStr ''.*'')] [(''job_id'', PList [PInt 10, PInt 11])]) = Some 3"
  using compose_query_must_count [of "[(''host_id'', PInt 5)]"
      "[(''time_recorded'', PInt 100, PInt 200), (''job_id'', PNone, PNone)]" PNone "PInt 20" PNone
      "[('''', PStr ''.*'')]" "[(''job_id'', PList [PInt 10, PInt 11])]"]
  by (simp add: named_def bounded_def)

section \<open>Properties of the poster\<close>

text \<open>
  C1. The claim is that \<^verbatim>\<open>post\<close> returns \<^verbatim>\<open>False\<close> when the transport raises. On a
  non-empty record with an unreachable engine, \<^verbatim>\<open>post\<close> logs the error and returns
  \<^verbatim>\<open>True\<close> on both transports: the helpers mute the exception, so the handler of
  \<^verbatim>\<open>post\<close> that returns \<^verbatim>\<open>False\<close> is never reached.
\<close>

theorem post_transport_error_returns_True:
  "post http_conn engine_down (PStr ''job'') [(''host_id'', PInt 1)] False [] =
     (Inr True, [EsIndex ''metadata'' (PStr ''job'') [(''host_id'', PInt 1)],
                 LogError (MsgExn ElasticsearchException)])
   \<and> post udp_conn engine_down (PStr ''job'') [(''host_id'', PInt 1)] False [] =
     (Inr True,
      [SockSendto (PDict [(''index'', PDict [(''_index'', PStr ''metadata''), (''_type'', PStr ''job'')])])
         (PDict [(''host_id'', PInt 1)]) ''localhost'' 9700,
       LogWarn (MsgExn SocketError)])"
  by (simp add: post_def dict_update_def send_data_http_def send_data_udp_def
      http_conn_def udp_conn_def engine_down_def)

text \<open>
  C4. The claim is that a \<^verbatim>\<open>time_recorded\<close> value present in the caller's record is
  preserved in the payload. \<^verbatim>\<open>post\<close> with stamping enabled replaces the caller's
  \<^verbatim>\<open>100006\<close> by the clock's reading, while \<^verbatim>\<open>bulk_post\<close> keeps it.
\<close>

theorem post_overwrites_time_recorded:
  "post http_conn (engine_with [] 0) (PStr ''job'')
       [(''host_id'', PInt 1), (''time_recorded'', PInt 100006)] True [] =
     (Inr True, [EsIndex ''metadata'' (PStr ''job'')
                   [(''host_id'', PInt 1), (''time_recorded'', PInt 1000)]])
   \<and> bulk_post http_conn (engine_with [] 0)
       [[(''host_id'', PInt 1), (''time_recorded'', PInt 100006)]] True [] =
     (Inr True, [EsBulk [[(''host_id'', PInt 1), (''time_recorded'', PInt 100006),
                          (''_index'', PStr ''metadata'')]]])"
  by (simp add: post_def bulk_post_def dict_update_def send_data_http_def
      http_conn_def engine_with_def)

text \<open>Every action built by \<^verbatim>\<open>bulk_post\<close> keeps the \<^verbatim>\<open>_type\<close> entry of the merged
  record and carries the collection name under \<^verbatim>\<open>_index\<close>.\<close>

lemma length_bulk_actions:
  "length (bulk_actions self env ltr kwargs n ds) = length ds"
  by (induction ds arbitrary: n) (simp_all add: Let_def)

lemma bulk_actions_nth:
  "i < length ds \<Longrightarrow>
     map_of (bulk_actions self env ltr kwargs n ds ! i) ''_type'' =
       map_of (dict_update (ds ! i) kwargs) ''_type''
     \<and> map_of (bulk_actions self env ltr kwargs n ds ! i) ''_index'' = Some (PStr (index self))"
proof (induction ds arbitrary: n i)
  case Nil
  then show ?case by simp
next
  case (Cons d ds)
  show ?case
  proof (cases i)
    case 0
    then show ?thesis
      by (simp add: Let_def update_conv')
  next
    case (Suc j)
    with Cons.prems have "j < length ds" by simp
    then show ?thesis
      using Cons.IH Suc by (simp add: Let_def)
  qed
qed

lemma bulk_post_trace:
  "data_list \<noteq> [] \<Longrightarrow>
     \<exists>rest. snd (bulk_post self env data_list ltr kwargs) =
       EsBulk (bulk_actions self env ltr kwargs 0 data_list) # rest"
  by (simp add: bulk_post_def Let_def split: option.splits)

text \<open>The first call \<^verbatim>\<open>post\<close> makes, on either transport, for a record that has a
  \<^verbatim>\<open>_type\<close> entry.\<close>

lemma post_http_trace:
  assumes "metadata \<noteq> []"
    and "map_of (dict_update metadata kwargs) ''_type'' = Some t"
    and "use_http self"
    and "body = (if log_time_recorded
               then AList.update ''time_recorded'' (time_time env 0)
                      (AList.delete ''_type'' (dict_update metadata kwargs))
               else AList.delete ''_type'' (dict_update metadata kwargs))"
  shows "\<exists>rest. snd (post self env type_str metadata log_time_recorded kwargs) =
           EsIndex (index self) t body # rest"
  using assms
  by (cases log_time_recorded; cases "es_index env (index self) t body")
    (simp_all add: post_def send_data_http_def Let_def)

lemma post_udp_trace:
  assumes "metadata \<noteq> []"
    and "map_of (dict_update metadata kwargs) ''_type'' = Some t"
    and "\<not> use_http self"
    and "body = (if log_time_recorded
               then AList.update ''time_recorded'' (time_time env 0)
                      (AList.delete ''_type'' (dict_update metadata kwargs))
               else AList.delete ''_type'' (dict_update metadata kwargs))"
  shows "\<exists>rest. snd (post self env type_str metadata log_time_recorded kwargs) =
           SockSendto (PDict [(''index'', PDict [(''_index'', PStr (index self)), (''_type'', t)])])
             (PDict body) (host self) (udp_port self) # rest"
  using assms
  by (cases log_time_recorded; cases "sock_sendto env
        (PDict [(''index'', PDict [(''_index'', PStr (index self)), (''_type'', t)])])
        (PDict body) (host self) (udp_port self)")
    (simp_all add: post_def send_data_udp_def Let_def)

text \<open>
  C10. \<^verbatim>\<open>bulk_post\<close> on a non-empty list submits one action per record; in each action the
  \<^verbatim>\<open>_type\<close> entry is exactly that of the caller's record merged with the extra fields
  (kept when supplied, absent when not), and \<^verbatim>\<open>_index\<close> is the configured collection
  name. \<^verbatim>\<open>post\<close>, by contrast, sends a record that has a \<^verbatim>\<open>_type\<close> entry under that
  type and without the entry.
\<close>

theorem bulk_post_keeps_type:
  assumes "data_list \<noteq> []"
  shows "(\<exists>actions rest.
            snd (bulk_post self env data_list log_time_recorded kwargs) = EsBulk actions # rest
          \<and> length actions = length data_list
          \<and> (\<forall>i < length data_list.
                map_of (actions ! i) ''_type'' =
                  map_of (dict_update (data_list ! i) kwargs) ''_type''
              \<and> map_of (actions ! i) ''_index'' = Some (PStr (index self))))
       \<and> (metadata \<noteq> [] \<and> map_of (dict_update metadata kwargs) ''_type'' = Some t
          \<longrightarrow> (\<exists>body rest.
                snd (post self env type_str metadata log_time_recorded kwargs) =
                  (if use_http self then EsIndex (index self) t body
                   else SockSendto
                     (PDict [(''index'', PDict [(''_index'', PStr (index self)), (''_type'', t)])])
                     (PDict body) (host self) (udp_port self)) # rest
              \<and> map_of body ''_type'' = None))"
proof (intro conjI impI)
  let ?actions = "bulk_actions self env log_time_recorded kwargs 0 data_list"
  from assms obtain rest where
    "snd (bulk_post self env data_list log_time_recorded kwargs) = EsBulk ?actions # rest"
    using bulk_post_trace by blast
  moreover have "length ?actions = length data_list"
    by (rule length_bulk_actions)
  moreover have "\<forall>i < length data_list.
      map_of (?actions ! i) ''_type'' = map_of (dict_update (data_list ! i) kwargs) ''_type''
      \<and> map_of (?actions ! i) ''_index'' = Some (PStr (index self))"
    using bulk_actions_nth by blast
  ultimately show "\<exists>actions rest.
            snd (bulk_post self env data_list log_time_recorded kwargs) = EsBulk actions # rest
          \<and> length actions = length data_list
          \<and> (\<forall>i < length data_list.
                map_of (actions ! i) ''_type'' =
                  map_of (dict_update (data_list ! i) kwargs) ''_type''
              \<and> map_of (actions ! i) ''_index'' = Some (PStr (index self)))"
    by blast
next
  assume h: "metadata \<noteq> [] \<and> map_of (dict_update metadata kwargs) ''_type'' = Some t"
  let ?merged = "AList.delete ''_type'' (dict_update metadata kwargs)"
  let ?body = "if log_time_recorded
               then AList.update ''time_recorded'' (time_time env 0) ?merged else ?merged"
  let ?ev = "if use_http self then EsIndex (index self) t ?body
             else SockSendto
               (PDict [(''index'', PDict [(''_index'', PStr (index self)), (''_type'', t)])])
               (PDict ?body) (host self) (udp_port self)"
  obtain rest where sent:
    "snd (post self env type_str metadata log_time_recorded kwargs) = ?ev # rest"
  proof (cases "use_http self")
    case True
    with h that post_http_trace [of metadata kwargs t self ?body log_time_recorded env type_str]
    show ?thesis by auto
  next
    case False
    with h that post_udp_trace [of metadata kwargs t self ?body log_time_recorded env type_str]
    show ?thesis by auto
  qed
  have "map_of ?body ''_type'' = None"
    by (simp add: update_conv' delete_conv')
  with sent show "\<exists>body rest.
                snd (post self env type_str metadata log_time_recorded kwargs) =
                  (if use_http self then EsIndex (index self) t body
                   else SockSendto
                     (PDict [(''index'', PDict [(''_index'', PStr (index self)), (''_type'', t)])])
                     (PDict body) (host self) (udp_port self)) # rest
              \<and> map_of body ''_type'' = None"
    by blast
qed

theorem bulk_post_keeps_type_witness:
  "(\<exists>actions rest.
      snd (bulk_post http_conn (engine_with [] 0)
             [[(''_type'', PStr ''job''), (''host_id'', PInt 1)]] True []) = EsBulk actions # rest
    \<and> length actions = 1
    \<and> map_of (actions ! 0) ''_type'' = Some (PStr ''job'')
    \<and> map_of (actions ! 0) ''_index'' = Some (PStr ''metadata''))
   \<and> (\<exists>body rest.
      snd (post http_conn (engine_with [] 0) (PStr ''test'')
             [(''_type'', PStr ''job''), (''host_id'', PInt 1)] True []) =
        EsIndex ''metadata'' (PStr ''job'') body # rest
    \<and> map_of body ''_type'' = None)"
  using bulk_post_keeps_type [where data_list = "[[(''_type'', PStr ''job''), (''host_id'', PInt 1)]]"
      and self = http_conn and env = "engine_with [] 0" and log_time_recorded = True
      and kwargs = "[]" and metadata = "[(''_type'', PStr ''job''), (''host_id'', PInt 1)]"
      and t = "PStr ''job''" and type_str = "PStr ''test''"]
  by (simp add: dict_update_def http_conn_def)

section \<open>Properties of the fetcher\<close>

text \<open>The two branches of \<^verbatim>\<open>execute_query\<close> after the first search, and the state in which
  \<^verbatim>\<open>_get_results_by_scan\<close> reaches its scan call.\<close>

lemma execute_query_direct:
  assumes "es_indices_exists env (index self) = Inr True"
    and "es_search env (index self) q = Inr result"
    and "\<not> (map_of q ''size'' = Some (PInt 10000)
             \<and> hits_total result > int (length (hits_hits result)))"
  shows "execute_query rank self env q =
           (make_output (hits_total result) (hits_hits result), q,
            [EsIndicesExists (index self), EsSearch (index self) q])"
  using assms
  by (auto simp: execute_query_def DEFAULT_RESULT_SIZE_def Let_def split: option.splits)

lemma execute_query_scroll:
  assumes "es_indices_exists env (index self) = Inr True"
    and "es_search env (index self) q = Inr result"
    and "map_of q ''size'' = Some (PInt 10000)"
    and "hits_total result > int (length (hits_hits result))"
  shows "execute_query rank self env q =
           ((case fst (get_results_by_scan rank self env q) of
               Inl e \<Rightarrow> Inl e
             | Inr hs \<Rightarrow> make_output (hits_total result) hs),
            fst (snd (get_results_by_scan rank self env q)),
            [EsIndicesExists (index self), EsSearch (index self) q,
             LogWarn (MsgScroll (hits_total result) (length (hits_hits result)) (PInt 10000))]
            @ snd (snd (get_results_by_scan rank self env q)))"
  using assms
  by (simp add: execute_query_def DEFAULT_RESULT_SIZE_def Let_def split: sum.splits)

lemma strip_sort_accepts:
  assumes "case map_of q ''sort'' of
             None \<Rightarrow> True
           | Some s \<Rightarrow> (case py_len s of Inl e \<Rightarrow> False | Inr n \<Rightarrow> n \<le> 1)"
  shows "strip_sort q =
           Inr (case map_of q ''sort'' of None \<Rightarrow> PNone | Some s \<Rightarrow> s, AList.delete ''sort'' q)"
proof (cases "map_of q ''sort''")
  case None
  then have "''sort'' \<notin> fst ` set q"
    by (simp add: map_of_eq_None_iff)
  with None show ?thesis
    by (simp add: strip_sort_def)
next
  case (Some s)
  with assms show ?thesis
    by (auto simp: strip_sort_def split: sum.splits)
qed

lemma get_results_by_scan_reaches_scan:
  assumes "es_search env (index self) (AList.update ''size'' (PInt 1) q) = Inr recount"
    and "case map_of q ''sort'' of
           None \<Rightarrow> True
         | Some s \<Rightarrow> (case py_len s of Inl e \<Rightarrow> False | Inr n \<Rightarrow> n \<le> 1)"
  shows "snd (get_results_by_scan rank self env q) =
           (AList.delete ''size'' (AList.delete ''sort'' (AList.update ''size'' (PInt 1) q)),
            [EsSearch (index self) (AList.update ''size'' (PInt 1) q),
             EsScan (AList.delete ''size'' (AList.delete ''sort'' (AList.update ''size'' (PInt 1) q)))
               (index self) DEFAULT_SCROLL_SIZE])"
proof -
  have "case map_of (AList.update ''size'' (PInt 1) q) ''sort'' of
           None \<Rightarrow> True
         | Some s \<Rightarrow> (case py_len s of Inl e \<Rightarrow> False | Inr n \<Rightarrow> n \<le> 1)"
    using assms(2) by (simp add: update_conv')
  then have "strip_sort (AList.update ''size'' (PInt 1) q) =
      Inr (case map_of (AList.update ''size'' (PInt 1) q) ''sort'' of None \<Rightarrow> PNone | Some s \<Rightarrow> s,
           AList.delete ''sort'' (AList.update ''size'' (PInt 1) q))"
    by (rule strip_sort_accepts)
  then show ?thesis
    using assms(1)
    by (simp add: get_results_by_scan_def Let_def split: sum.splits option.splits)
qed

lemma map_of_scanned_query:
  "map_of (AList.delete ''size'' (AList.delete ''sort'' (AList.update ''size'' (PInt 1) q))) =
     (map_of q)(''size'' := None, ''sort'' := None)"
  by (auto simp: delete_conv' update_conv')

text \<open>
  Every run of \<^verbatim>\<open>_get_results_by_scan\<close> starts with the count search on the document with
  \<^verbatim>\<open>size\<close> set to 1; a run whose count search raises, or whose sort is rejected, stops
  there and leaves the document in that state.
\<close>

lemma get_results_by_scan_starts:
  "\<exists>rest. snd (snd (get_results_by_scan rank self env q)) =
     EsSearch (index self) (AList.update ''size'' (PInt 1) q) # rest"
  by (simp add: get_results_by_scan_def Let_def split: sum.splits prod.splits option.splits)

lemma strip_sort_rejects:
  assumes "\<not> (case map_of q ''sort'' of
             None \<Rightarrow> True
           | Some s \<Rightarrow> (case py_len s of Inl e \<Rightarrow> False | Inr n \<Rightarrow> n \<le> 1))"
  shows "\<exists>e. strip_sort q = Inl e"
  using assms by (auto simp: strip_sort_def split: option.splits sum.splits)

lemma get_results_by_scan_aborts:
  assumes "case es_search env (index self) (AList.update ''size'' (PInt 1) q) of
             Inl e \<Rightarrow> True
           | Inr recount \<Rightarrow>
               \<not> (case map_of q ''sort'' of
                     None \<Rightarrow> True
                   | Some s \<Rightarrow> (case py_len s of Inl e \<Rightarrow> False | Inr n \<Rightarrow> n \<le> 1))"
  shows "\<exists>e. get_results_by_scan rank self env q =
           (Inl e, AList.update ''size'' (PInt 1) q,
            [EsSearch (index self) (AList.update ''size'' (PInt 1) q)])"
proof (cases "es_search env (index self) (AList.update ''size'' (PInt 1) q)")
  case (Inl e)
  then show ?thesis
    by (simp add: get_results_by_scan_def Let_def)
next
  case (Inr recount)
  with assms have "\<not> (case map_of (AList.update ''size'' (PInt 1) q) ''sort'' of
             None \<Rightarrow> True
           | Some s \<Rightarrow> (case py_len s of Inl e \<Rightarrow> False | Inr n \<Rightarrow> n \<le> 1))"
    by (simp add: update_conv')
  then obtain e where "strip_sort (AList.update ''size'' (PInt 1) q) = Inl e"
    using strip_sort_rejects by blast
  with Inr show ?thesis
    by (simp add: get_results_by_scan_def Let_def)
qed

text \<open>
  C8. For every query, if the engine reports that the collection does not exist,
  \<^verbatim>\<open>execute_query\<close> returns \<^verbatim>\<open>None\<close> without raising: the only call made is the
  existence check, the missing collection is logged as an error, and the query document is
  untouched.
\<close>

theorem execute_query_missing_index:
  assumes "es_indices_exists env (index self) = Inr False"
  shows "execute_query rank self env q =
     (Inr None, q,
      [EsIndicesExists (index self),
       LogError (MsgIndexMissing (index self) (host self) (port self))])"
  using assms by (simp add: execute_query_def)

theorem execute_query_missing_index_witness:
  "execute_query int_rank http_conn engine_without_index [(''size'', PInt 10000)] =
     (Inr None, [(''size'', PInt 10000)],
      [EsIndicesExists ''metadata'', LogError (MsgIndexMissing ''metadata'' ''localhost'' 9200)])"
  using execute_query_missing_index [of engine_without_index http_conn int_rank "[(''size'', PInt 10000)]"]
  by (simp add: engine_without_index_def http_conn_def)

text \<open>
  C2. Once the collection exists and the first search has answered, \<^verbatim>\<open>execute_query\<close>
  takes the scroll path exactly when the query document has a \<^verbatim>\<open>size\<close> entry equal to
  10000 and the total match count exceeds the number of hits of the first page. On the
  scroll path the hits are those of \<^verbatim>\<open>_get_results_by_scan\<close>; otherwise the hits of the
  first page are normalised directly, no further call is made and the query is unchanged.
\<close>

theorem execute_query_scroll_condition:
  assumes "es_indices_exists env (index self) = Inr True"
    and "es_search env (index self) q = Inr result"
  shows "took_scroll_path (snd (snd (execute_query rank self env q))) =
           (map_of q ''size'' = Some (PInt 10000)
            \<and> hits_total result > int (length (hits_hits result)))
       \<and> (map_of q ''size'' = Some (PInt 10000)
            \<and> hits_total result > int (length (hits_hits result))
          \<longrightarrow> fst (execute_query rank self env q) =
                (case fst (get_results_by_scan rank self env q) of
                   Inl e \<Rightarrow> Inl e
                 | Inr hs \<Rightarrow> make_output (hits_total result) hs))
       \<and> (\<not> (map_of q ''size'' = Some (PInt 10000)
             \<and> hits_total result > int (length (hits_hits result)))
          \<longrightarrow> execute_query rank self env q =
                (make_output (hits_total result) (hits_hits result), q,
                 [EsIndicesExists (index self), EsSearch (index self) q]))"
  using assms
  by (auto simp: execute_query_def took_scroll_path_def DEFAULT_RESULT_SIZE_def Let_def
      split: sum.splits option.splits)

theorem execute_query_scroll_condition_witness:
  "took_scroll_path (snd (snd (execute_query int_rank http_conn (engine_with three_docs 1)
      [(''size'', PInt 10000)])))
   \<and> execute_query int_rank http_conn (engine_with three_docs 1) [(''size'', PInt 20)] =
       (Inr (Some \<lparr>total = 3, hits = [[(''time_recorded'', PInt 1)]]\<rparr>), [(''size'', PInt 20)],
        [EsIndicesExists ''metadata'', EsSearch ''metadata'' [(''size'', PInt 20)]])"
  using execute_query_scroll_condition [of "engine_with three_docs 1" http_conn
      "[(''size'', PInt 10000)]" "\<lparr>hits_total = 3, hits_hits = take 1 three_docs\<rparr>" int_rank]
    execute_query_scroll_condition [of "engine_with three_docs 1" http_conn
      "[(''size'', PInt 20)]" "\<lparr>hits_total = 3, hits_hits = take 1 three_docs\<rparr>" int_rank]
  by (simp add: engine_with_def http_conn_def three_docs_def make_output_def convert_hit_def)

text \<open>
  C5, as stated, fails: the count search runs before the check of the sort, so with a
  two-key sort and a count search that raises, the scroll path is taken and the fetch raises
  the engine's error, not the configuration error.
\<close>

theorem scroll_recount_error_counterexample:
  "took_scroll_path (snd (snd (execute_query int_rank http_conn (engine_recount_fails three_docs 1)
      [(''size'', PInt 10000),
       (''sort'', PList [PStr ''hostname'', PDict [(''time_recorded'', PStr ''asc'')]])])))
   \<and> fst (execute_query int_rank http_conn (engine_recount_fails three_docs 1)
      [(''size'', PInt 10000),
       (''sort'', PList [PStr ''hostname'', PDict [(''time_recorded'', PStr ''asc'')]])]) =
      Inl ElasticsearchException"
  by (simp add: execute_query_def get_results_by_scan_def took_scroll_path_def
      DEFAULT_RESULT_SIZE_def Let_def engine_recount_fails_def http_conn_def three_docs_def)

text \<open>
  C5, amended. If the scroll path is taken and the query's \<^verbatim>\<open>sort\<close> has more than one
  entry, \<^verbatim>\<open>execute_query\<close> raises before any scan call is attempted: it raises
  \<^verbatim>\<open>EsUtilException\<close> when the count search that precedes the check answers, and that
  search's own error when it raises. In both cases the calls made are the existence check
  and the two searches, and the caller's document is left with \<^verbatim>\<open>size\<close> set to 1.
\<close>

theorem scroll_multi_key_sort_raises:
  assumes "es_indices_exists env (index self) = Inr True"
    and "es_search env (index self) q = Inr result"
    and "map_of q ''size'' = Some (PInt 10000)"
    and "hits_total result > int (length (hits_hits result))"
    and "map_of q ''sort'' = Some sort_spec"
    and "py_len sort_spec = Inr n"
    and "n > 1"
  shows "execute_query rank self env q =
     (Inl (case es_search env (index self) (AList.update ''size'' (PInt 1) q) of
             Inl e \<Rightarrow> e
           | Inr recount \<Rightarrow> EsUtilException
               ''_get_results_by_scan does not support sort with more than one key: %s''),
      AList.update ''size'' (PInt 1) q,
      [EsIndicesExists (index self), EsSearch (index self) q,
       LogWarn (MsgScroll (hits_total result) (length (hits_hits result)) (PInt 10000)),
       EsSearch (index self) (AList.update ''size'' (PInt 1) q)])
     \<and> scan_calls (snd (snd (execute_query rank self env q))) = []"
proof -
  have scan: "get_results_by_scan rank self env q =
     (Inl (case es_search env (index self) (AList.update ''size'' (PInt 1) q) of
             Inl e \<Rightarrow> e
           | Inr recount \<Rightarrow> EsUtilException
               ''_get_results_by_scan does not support sort with more than one key: %s''),
      AList.update ''size'' (PInt 1) q,
      [EsSearch (index self) (AList.update ''size'' (PInt 1) q)])"
    using assms(5-7)
    by (cases "es_search env (index self) (AList.update ''size'' (PInt 1) q)")
      (simp_all add: get_results_by_scan_def strip_sort_def Let_def update_conv')
  show ?thesis
    using assms(1-4)
    by (simp add: execute_query_scroll scan scan_calls_def)
qed

theorem scroll_multi_key_sort_raises_witness:
  "execute_query int_rank http_conn (engine_with three_docs 1)
      [(''size'', PInt 10000),
       (''sort'', PList [PStr ''hostname'', PDict [(''time_recorded'', PStr ''asc'')]])] =
     (Inl (EsUtilException
        ''_get_results_by_scan does not support sort with more than one key: %s''),
      [(''size'', PInt 1),
       (''sort'', PList [PStr ''hostname'', PDict [(''time_recorded'', PStr ''asc'')]])],
      [EsIndicesExists ''metadata'',
       EsSearch ''metadata'' [(''size'', PInt 10000),
         (''sort'', PList [PStr ''hostname'', PDict [(''time_recorded'', PStr ''asc'')]])],
       LogWarn (MsgScroll 3 1 (PInt 10000)),
       EsSearch ''metadata'' [(''size'', PInt 1),
         (''sort'', PList [PStr ''hostname'', PDict [(''time_recorded'', PStr ''asc'')]])]])
   \<and> scan_calls (snd (snd (execute_query int_rank http_conn (engine_with three_docs 1)
      [(''size'', PInt 10000),
       (''sort'', PList [PStr ''hostname'', PDict [(''time_recorded'', PStr ''asc'')]])]))) = []
   \<and> fst (execute_query int_rank http_conn (engine_recount_fails three_docs 1)
      [(''size'', PInt 10000),
       (''sort'', PList [PStr ''hostname'', PDict [(''time_recorded'', PStr ''asc'')]])]) =
     Inl ElasticsearchException
   \<and> scan_calls (snd (snd (execute_query int_rank http_conn (engine_recount_fails three_docs 1)
      [(''size'', PInt 10000),
       (''sort'', PList [PStr ''hostname'', PDict [(''time_recorded'', PStr ''asc'')]])]))) = []"
  using scroll_multi_key_sort_raises [where env = "engine_with three_docs 1" and self = http_conn
      and q = "[(''size'', PInt 10000),
        (''sort'', PList [PStr ''hostname'', PDict [(''time_recorded'', PStr ''asc'')]])]"
      and result = "\<lparr>hits_total = 3, hits_hits = take 1 three_docs\<rparr>"
      and sort_spec = "PList [PStr ''hostname'', PDict [(''time_recorded'', PStr ''asc'')]]"
      and n = 2 and rank = int_rank]
    scroll_multi_key_sort_raises [where env = "engine_recount_fails three_docs 1"
      and self = http_conn
      and q = "[(''size'', PInt 10000),
        (''sort'', PList [PStr ''hostname'', PDict [(''time_recorded'', PStr ''asc'')]])]"
      and result = "\<lparr>hits_total = 3, hits_hits = take 1 three_docs\<rparr>"
      and sort_spec = "PList [PStr ''hostname'', PDict [(''time_recorded'', PStr ''asc'')]]"
      and n = 2 and rank = int_rank]
  by (simp add: engine_with_def engine_recount_fails_def http_conn_def three_docs_def
      scan_calls_def)

text \<open>
  C9, as stated, fails: with a two-key sort the scroll path is taken and the function raises
  before its deletions, so the caller's document is left with \<^verbatim>\<open>size\<close> set to 1, not
  deleted, and with its \<^verbatim>\<open>sort\<close> entry still in place.
\<close>

theorem scroll_leaves_size_and_sort_counterexample:
  "took_scroll_path (snd (snd (execute_query int_rank http_conn (engine_with three_docs 1)
      [(''size'', PInt 10000),
       (''sort'', PList [PStr ''hostname'', PDict [(''time_recorded'', PStr ''asc'')]])])))
   \<and> fst (snd (execute_query int_rank http_conn (engine_with three_docs 1)
      [(''size'', PInt 10000),
       (''sort'', PList [PStr ''hostname'', PDict [(''time_recorded'', PStr ''asc'')]])])) =
      [(''size'', PInt 1),
       (''sort'', PList [PStr ''hostname'', PDict [(''time_recorded'', PStr ''asc'')]])]"
  by (simp add: execute_query_def get_results_by_scan_def strip_sort_def took_scroll_path_def
      DEFAULT_RESULT_SIZE_def Let_def engine_with_def http_conn_def three_docs_def)

text \<open>
  C9, amended. On the non-scroll path the query document is left unchanged. On every run of
  the scroll path the count search is issued on the document with \<^verbatim>\<open>size\<close> overwritten
  by 1. If that search answers and the \<^verbatim>\<open>sort\<close> entry, if any, has length at most one,
  then the \<^verbatim>\<open>sort\<close> and \<^verbatim>\<open>size\<close> entries are deleted, every other entry is kept, the
  scan is issued on that document, and the caller's document is left in that state.
  Otherwise (the count search raises, or the sort has no length or a length above one) the
  call raises, no scan is issued, and the caller's document is left with \<^verbatim>\<open>size\<close> set
  to 1 and its other entries, the \<^verbatim>\<open>sort\<close> included, in place.
\<close>

theorem scroll_mutates_query:
  assumes "es_indices_exists env (index self) = Inr True"
    and "es_search env (index self) q = Inr result"
  shows "(\<not> (map_of q ''size'' = Some (PInt 10000)
             \<and> hits_total result > int (length (hits_hits result)))
          \<longrightarrow> fst (snd (execute_query rank self env q)) = q)
     \<and> (map_of q ''size'' = Some (PInt 10000)
          \<and> hits_total result > int (length (hits_hits result))
          \<longrightarrow> (\<exists>rest.
                snd (snd (execute_query rank self env q)) =
                    [EsIndicesExists (index self), EsSearch (index self) q,
                     LogWarn (MsgScroll (hits_total result) (length (hits_hits result))
                        (PInt 10000)),
                     EsSearch (index self) (AList.update ''size'' (PInt 1) q)] @ rest))
     \<and> (map_of q ''size'' = Some (PInt 10000)
          \<and> hits_total result > int (length (hits_hits result))
          \<and> es_search env (index self) (AList.update ''size'' (PInt 1) q) = Inr recount
          \<and> (case map_of q ''sort'' of
                None \<Rightarrow> True
              | Some s \<Rightarrow> (case py_len s of Inl e \<Rightarrow> False | Inr n \<Rightarrow> n \<le> 1))
          \<longrightarrow> (\<exists>final.
                fst (snd (execute_query rank self env q)) = final
                \<and> map_of final = (map_of q)(''size'' := None, ''sort'' := None)
                \<and> snd (snd (execute_query rank self env q)) =
                    [EsIndicesExists (index self), EsSearch (index self) q,
                     LogWarn (MsgScroll (hits_total result) (length (hits_hits result))
                        (PInt 10000)),
                     EsSearch (index self) (AList.update ''size'' (PInt 1) q),
                     EsScan final (index self) DEFAULT_SCROLL_SIZE]))
     \<and> (map_of q ''size'' = Some (PInt 10000)
          \<and> hits_total result > int (length (hits_hits result))
          \<and> (case es_search env (index self) (AList.update ''size'' (PInt 1) q) of
                Inl e \<Rightarrow> True
              | Inr recount \<Rightarrow>
                  \<not> (case map_of q ''sort'' of
                        None \<Rightarrow> True
                      | Some s \<Rightarrow> (case py_len s of Inl e \<Rightarrow> False | Inr n \<Rightarrow> n \<le> 1)))
          \<longrightarrow> (\<exists>e.
                execute_query rank self env q =
                  (Inl e, AList.update ''size'' (PInt 1) q,
                   [EsIndicesExists (index self), EsSearch (index self) q,
                    LogWarn (MsgScroll (hits_total result) (length (hits_hits result))
                       (PInt 10000)),
                    EsSearch (index self) (AList.update ''size'' (PInt 1) q)])))"
proof (intro conjI impI)
  assume "\<not> (map_of q ''size'' = Some (PInt 10000)
             \<and> hits_total result > int (length (hits_hits result)))"
  then show "fst (snd (execute_query rank self env q)) = q"
    using assms by (simp add: execute_query_direct)
next
  assume h: "map_of q ''size'' = Some (PInt 10000)
          \<and> hits_total result > int (length (hits_hits result))"
  obtain rest where "snd (snd (get_results_by_scan rank self env q)) =
      EsSearch (index self) (AList.update ''size'' (PInt 1) q) # rest"
    using get_results_by_scan_starts by blast
  then have "snd (snd (execute_query rank self env q)) =
                    [EsIndicesExists (index self), EsSearch (index self) q,
                     LogWarn (MsgScroll (hits_total result) (length (hits_hits result))
                        (PInt 10000)),
                     EsSearch (index self) (AList.update ''size'' (PInt 1) q)] @ rest"
    using assms h by (simp add: execute_query_scroll)
  then show "\<exists>rest.
                snd (snd (execute_query rank self env q)) =
                    [EsIndicesExists (index self), EsSearch (index self) q,
                     LogWarn (MsgScroll (hits_total result) (length (hits_hits result))
                        (PInt 10000)),
                     EsSearch (index self) (AList.update ''size'' (PInt 1) q)] @ rest"
    by blast
next
  assume h: "map_of q ''size'' = Some (PInt 10000)
          \<and> hits_total result > int (length (hits_hits result))
          \<and> es_search env (index self) (AList.update ''size'' (PInt 1) q) = Inr recount
          \<and> (case map_of q ''sort'' of
                None \<Rightarrow> True
              | Some s \<Rightarrow> (case py_len s of Inl e \<Rightarrow> False | Inr n \<Rightarrow> n \<le> 1))"
  let ?final = "AList.delete ''size'' (AList.delete ''sort'' (AList.update ''size'' (PInt 1) q))"
  have scan: "snd (get_results_by_scan rank self env q) =
           (?final,
            [EsSearch (index self) (AList.update ''size'' (PInt 1) q),
             EsScan ?final (index self) DEFAULT_SCROLL_SIZE])"
    using h by (intro get_results_by_scan_reaches_scan) simp_all
  have exec: "snd (execute_query rank self env q) =
           (fst (snd (get_results_by_scan rank self env q)),
            [EsIndicesExists (index self), EsSearch (index self) q,
             LogWarn (MsgScroll (hits_total result) (length (hits_hits result)) (PInt 10000))]
            @ snd (snd (get_results_by_scan rank self env q)))"
    using assms h by (simp add: execute_query_scroll)
  show "\<exists>final.
                fst (snd (execute_query rank self env q)) = final
                \<and> map_of final = (map_of q)(''size'' := None, ''sort'' := None)
                \<and> snd (snd (execute_query rank self env q)) =
                    [EsIndicesExists (index self), EsSearch (index self) q,
                     LogWarn (MsgScroll (hits_total result) (length (hits_hits result))
                        (PInt 10000)),
                     EsSearch (index self) (AList.update ''size'' (PInt 1) q),
                     EsScan final (index self) DEFAULT_SCROLL_SIZE]"
    by (rule exI [of _ ?final]) (simp add: exec scan map_of_scanned_query)
next
  assume h: "map_of q ''size'' = Some (PInt 10000)
          \<and> hits_total result > int (length (hits_hits result))
          \<and> (case es_search env (index self) (AList.update ''size'' (PInt 1) q) of
                Inl e \<Rightarrow> True
              | Inr recount \<Rightarrow>
                  \<not> (case map_of q ''sort'' of
                        None \<Rightarrow> True
                      | Some s \<Rightarrow> (case py_len s of Inl e \<Rightarrow> False | Inr n \<Rightarrow> n \<le> 1)))"
  then obtain e where "get_results_by_scan rank self env q =
           (Inl e, AList.update ''size'' (PInt 1) q,
            [EsSearch (index self) (AList.update ''size'' (PInt 1) q)])"
    using get_results_by_scan_aborts [where env = env and self = self and q = q and rank = rank]
    by blast
  then have "execute_query rank self env q =
                  (Inl e, AList.update ''size'' (PInt 1) q,
                   [EsIndicesExists (index self), EsSearch (index self) q,
                    LogWarn (MsgScroll (hits_total result) (length (hits_hits result))
                       (PInt 10000)),
                    EsSearch (index self) (AList.update ''size'' (PInt 1) q)])"
    using assms h by (simp add: execute_query_scroll)
  then show "\<exists>e.
                execute_query rank self env q =
                  (Inl e, AList.update ''size'' (PInt 1) q,
                   [EsIndicesExists (index self), EsSearch (index self) q,
                    LogWarn (MsgScroll (hits_total result) (length (hits_hits result))
                       (PInt 10000)),
                    EsSearch (index self) (AList.update ''size'' (PInt 1) q)])"
    by blast
qed

theorem scroll_mutates_query_witness:
  "fst (snd (execute_query int_rank http_conn (engine_with three_docs 1)
       [(''size'', PInt 20), (''sort'', PList [PDict [(''time_recorded'', PStr ''desc'')]])])) =
     [(''size'', PInt 20), (''sort'', PList [PDict [(''time_recorded'', PStr ''desc'')]])]
   \<and> (\<exists>final.
        fst (snd (execute_query int_rank http_conn (engine_with three_docs 1)
          [(''query'', PDict []), (''size'', PInt 10000),
           (''sort'', PList [PDict [(''time_recorded'', PStr ''desc'')]])])) = final
        \<and> map_of final = [''query'' \<mapsto> PDict []]
        \<and> snd (snd (execute_query int_rank http_conn (engine_with three_docs 1)
          [(''query'', PDict []), (''size'', PInt 10000),
           (''sort'', PList [PDict [(''time_recorded'', PStr ''desc'')]])])) =
          [EsIndicesExists ''metadata'',
           EsSearch ''metadata'' [(''query'', PDict []), (''size'', PInt 10000),
             (''sort'', PList [PDict [(''time_recorded'', PStr ''desc'')]])],
           LogWarn (MsgScroll 3 1 (PInt 10000)),
           EsSearch ''metadata'' [(''query'', PDict []), (''size'', PInt 1),
             (''sort'', PList [PDict [(''time_recorded'', PStr ''desc'')]])],
           EsScan final ''metadata'' 50000])
   \<and> (\<exists>e.
        execute_query int_rank http_conn (engine_with three_docs 1)
          [(''size'', PInt 10000),
           (''sort'', PList [PStr ''hostname'', PDict [(''time_recorded'', PStr ''asc'')]])] =
          (Inl e,
           [(''size'', PInt 1),
            (''sort'', PList [PStr ''hostname'', PDict [(''time_recorded'', PStr ''asc'')]])],
           [EsIndicesExists ''metadata'',
            EsSearch ''metadata'' [(''size'', PInt 10000),
              (''sort'', PList [PStr ''hostname'', PDict [(''time_recorded'', PStr ''asc'')]])],
            LogWarn (MsgScroll 3 1 (PInt 10000)),
            EsSearch ''metadata'' [(''size'', PInt 1),
              (''sort'', PList [PStr ''hostname'', PDict [(''time_recorded'', PStr ''asc'')]])]]))"
  using scroll_mutates_query [where env = "engine_with three_docs 1" and self = http_conn
      and q = "[(''size'', PInt 20), (''sort'', PList [PDict [(''time_recorded'', PStr ''desc'')]])]"
      and result = "\<lparr>hits_total = 3, hits_hits = take 1 three_docs\<rparr>" and rank = int_rank]
    scroll_mutates_query [where env = "engine_with three_docs 1" and self = http_conn
      and q = "[(''query'', PDict []), (''size'', PInt 10000),
        (''sort'', PList [PDict [(''time_recorded'', PStr ''desc'')]])]"
      and result = "\<lparr>hits_total = 3, hits_hits = take 1 three_docs\<rparr>"
      and recount = "\<lparr>hits_total = 3, hits_hits = take 1 three_docs\<rparr>" and rank = int_rank]
    scroll_mutates_query [where env = "engine_with three_docs 1" and self = http_conn
      and q = "[(''size'', PInt 10000),
           (''sort'', PList [PStr ''hostname'', PDict [(''time_recorded'', PStr ''asc'')]])]"
      and result = "\<lparr>hits_total = 3, hits_hits = take 1 three_docs\<rparr>" and rank = int_rank]
  by (simp add: engine_with_def http_conn_def three_docs_def DEFAULT_SCROLL_SIZE_def fun_upd_twist)











end
